theory Spec2Isabelle
  imports Main
begin

section \<open>The games list controller (GameList.svelte)\<close>

subsection \<open>Numbers and strings of the platform\<close>

text \<open>
  A JavaScript number is modelled as a whole number of type \<^typ>\<open>int\<close>, each standing
  for itself exactly; fractions, \<^verbatim>\<open>NaN\<close> as a stored value and the rounding of
  doubles are outside the model. A string is a list of characters, a character standing
  for a UTF-16 code unit below 256.

  \<^verbatim>\<open>Number.prototype.toString()\<close> of a whole number prints all its decimal digits when
  there are at most 21 of them. A number of 22 digits or more is printed in exponent
  notation: the digits without the trailing zeros, a decimal point after the first of
  them when there are several, then \<^verbatim>\<open>e+\<close> and the exponent. A negative number is
  printed as a minus sign and its absolute value. \<open>digit_char\<close> is only ever applied to
  a digit below 10.
\<close>

definition digit_char :: "nat \<Rightarrow> char" where
  "digit_char d = ''0123456789'' ! d"

fun digits :: "nat \<Rightarrow> string" where
  "digits n = (if n < 10 then [digit_char n] else digits (n div 10) @ [digit_char (n mod 10)])"

declare digits.simps [simp del]

definition exponent_notation :: "string \<Rightarrow> string" where
  "exponent_notation ds =
     (let significant = rev (dropWhile (\<lambda>c. c = CHR ''0'') (rev ds));
          mantissa = (if length significant = 1 then significant
                      else hd significant # CHR ''.'' # tl significant)
      in mantissa @ ''e+'' @ digits (length ds - 1))"

definition toString_nat :: "nat \<Rightarrow> string" where
  "toString_nat n =
     (let ds = digits n in if length ds \<le> 21 then ds else exponent_notation ds)"

definition number_toString :: "int \<Rightarrow> string" where
  "number_toString n = (if n < 0 then CHR ''-'' # toString_nat (nat (- n)) else toString_nat (nat n))"

text \<open>
  \<^verbatim>\<open>Number.parseInt(str, 10)\<close>: leading white space is skipped, one sign is
  accepted, then the longest run of decimal digits is read; with no digit the result is
  \<^verbatim>\<open>NaN\<close>, which is \<^const>\<open>None\<close> here. Whatever follows the digits is ignored.
  The white space characters are those among the code units below 256.
\<close>

definition isWhiteSpace :: "char \<Rightarrow> bool" where
  "isWhiteSpace c =
     (c \<in> set [CHR 0x09, CHR 0x0A, CHR 0x0B, CHR 0x0C, CHR 0x0D, CHR 0x20, CHR 0xA0])"

definition isDigit :: "char \<Rightarrow> bool" where
  "isDigit c = (c \<in> set ''0123456789'')"

definition digitValue :: "char \<Rightarrow> int" where
  "digitValue c = of_char c - 48"

definition digits_value :: "string \<Rightarrow> int" where
  "digits_value Z = foldl (\<lambda>acc c. 10 * acc + digitValue c) 0 Z"

definition parseInt :: "string \<Rightarrow> int option" where
  "parseInt str =
     (let S = dropWhile isWhiteSpace str;
          sign = (if S \<noteq> [] \<and> hd S = CHR ''-'' then - 1 else 1);
          S = (if S \<noteq> [] \<and> (hd S = CHR ''+'' \<or> hd S = CHR ''-'') then tl S else S);
          Z = takeWhile isDigit S
      in if Z = [] then None
         else Some (sign * digits_value Z))"

text \<open>
  The conversion of a string to a number (\<^verbatim>\<open>StringToNumber\<close>), used where a string
  is compared with a number. White space at both ends is dropped; the empty string is 0;
  \<^verbatim>\<open>0x\<close>, \<^verbatim>\<open>0o\<close> and \<^verbatim>\<open>0b\<close> introduce hexadecimal, octal and binary digits;
  otherwise a sign, then \<^verbatim>\<open>Infinity\<close> or a decimal literal with an optional fraction
  and an optional exponent. Anything else is \<^verbatim>\<open>NaN\<close>. A decimal literal may denote
  a fraction, so the result is a mantissa with a power of ten.
\<close>

datatype numeric = NaN | Infinity bool | Decimal int int

definition trim :: "string \<Rightarrow> string" where
  "trim str = rev (dropWhile isWhiteSpace (rev (dropWhile isWhiteSpace str)))"

definition radix_digit :: "char \<Rightarrow> nat option" where
  "radix_digit c =
     (if isDigit c then Some (of_char c - 48)
      else if c \<in> set ''abcdef'' then Some (of_char c - 87)
      else if c \<in> set ''ABCDEF'' then Some (of_char c - 55)
      else None)"

definition radix_literal :: "nat \<Rightarrow> string \<Rightarrow> numeric" where
  "radix_literal radix ds =
     (if ds \<noteq> [] \<and> (\<forall>c \<in> set ds. case radix_digit c of None \<Rightarrow> False | Some d \<Rightarrow> d < radix)
      then Decimal (foldl (\<lambda>acc c. int radix * acc + int (the (radix_digit c))) 0 ds) 0
      else NaN)"

definition exponent_part :: "string \<Rightarrow> int option" where
  "exponent_part rest =
     (if rest = [] then Some 0
      else if hd rest = CHR ''e'' \<or> hd rest = CHR ''E'' then
        (let r = tl rest;
             sign = (if r \<noteq> [] \<and> hd r = CHR ''-'' then - 1 else 1);
             r = (if r \<noteq> [] \<and> (hd r = CHR ''+'' \<or> hd r = CHR ''-'') then tl r else r)
         in if r \<noteq> [] \<and> (\<forall>c \<in> set r. isDigit c) then Some (sign * digits_value r) else None)
      else None)"

definition decimal_literal :: "string \<Rightarrow> numeric" where
  "decimal_literal str =
     (let negative = (str \<noteq> [] \<and> hd str = CHR ''-'');
          body = (if str \<noteq> [] \<and> (hd str = CHR ''+'' \<or> hd str = CHR ''-'') then tl str else str)
      in if body = ''Infinity'' then Infinity negative
         else
           (let whole = takeWhile isDigit body;
                rest = dropWhile isDigit body;
                fraction = (if rest \<noteq> [] \<and> hd rest = CHR ''.'' then takeWhile isDigit (tl rest) else []);
                rest = (if rest \<noteq> [] \<and> hd rest = CHR ''.'' then dropWhile isDigit (tl rest) else rest)
            in if whole @ fraction = [] then NaN
               else (case exponent_part rest of
                       None \<Rightarrow> NaN
                     | Some e \<Rightarrow>
                        Decimal ((if negative then - 1 else 1) * digits_value (whole @ fraction))
                                (e - int (length fraction)))))"

definition stringToNumber :: "string \<Rightarrow> numeric" where
  "stringToNumber str =
     (let text = trim str
      in if text = [] then Decimal 0 0
         else if take 2 text = ''0x'' \<or> take 2 text = ''0X'' then radix_literal 16 (drop 2 text)
         else if take 2 text = ''0o'' \<or> take 2 text = ''0O'' then radix_literal 8 (drop 2 text)
         else if take 2 text = ''0b'' \<or> take 2 text = ''0B'' then radix_literal 2 (drop 2 text)
         else decimal_literal text)"

text \<open>\<^verbatim>\<open>p <= x\<close> for a whole number \<open>p\<close> and a converted number \<open>x\<close>.\<close>

fun le_numeric :: "int \<Rightarrow> numeric \<Rightarrow> bool" where
  "le_numeric p NaN = False"
| "le_numeric p (Infinity negative) = (\<not> negative)"
| "le_numeric p (Decimal m e) = (if 0 \<le> e then p \<le> m * 10 ^ nat e else p * 10 ^ nat (- e) \<le> m)"

subsection \<open>Values\<close>

text \<open>
  What \<^verbatim>\<open>response.json()\<close> can resolve with, and so what any variable assigned
  from it can hold: any JSON value, together with \<^verbatim>\<open>undefined\<close>, which reading a
  missing property gives. An object is the list of its own properties; a name listed
  twice counts at its first entry.
\<close>

datatype jsval =
    VUndefined
  | VNull
  | VBool bool
  | VNumber int
  | VString string
  | VArray "jsval list"
  | VObject "(string \<times> jsval) list"

text \<open>
  What a \<^verbatim>\<open>catch (err)\<close> receives: an \<^verbatim>\<open>Error\<close> instance with its message, or
  any other value with its \<^verbatim>\<open>String(err)\<close>. A \<^verbatim>\<open>TypeError\<close> is an
  \<^verbatim>\<open>Error\<close> instance; its message is worded as V8 words it.
\<close>

datatype thrown = ErrorInstance string | NonError string

fun thrown_text :: "thrown \<Rightarrow> string" where
  "thrown_text (ErrorInstance message) = message"
| "thrown_text (NonError str) = str"

definition nullish :: "jsval \<Rightarrow> bool" where
  "nullish v = (v = VUndefined \<or> v = VNull)"

definition truthy :: "jsval \<Rightarrow> bool" where
  "truthy v =
     (case v of
        VUndefined \<Rightarrow> False
      | VNull \<Rightarrow> False
      | VBool b \<Rightarrow> b
      | VNumber n \<Rightarrow> n \<noteq> 0
      | VString str \<Rightarrow> str \<noteq> []
      | VArray xs \<Rightarrow> True
      | VObject ps \<Rightarrow> True)"

definition cannot_read :: "jsval \<Rightarrow> string \<Rightarrow> thrown" where
  "cannot_read v k =
     ErrorInstance (''Cannot read properties of ''
                    @ (if v = VNull then ''null'' else ''undefined'')
                    @ '' (reading '' @ [CHR 0x27] @ k @ [CHR 0x27] @ '')'')"

definition not_a_function :: "string \<Rightarrow> thrown" where
  "not_a_function expr = ErrorInstance (expr @ '' is not a function'')"

text \<open>
  \<^verbatim>\<open>v.k\<close> for the property names the component reads (\<^verbatim>\<open>games\<close>,
  \<^verbatim>\<open>pagination\<close>, \<^verbatim>\<open>page\<close>, \<^verbatim>\<open>per_page\<close>, \<^verbatim>\<open>total_pages\<close>, \<^verbatim>\<open>id\<close>,
  \<^verbatim>\<open>title\<close>, \<^verbatim>\<open>description\<close>, \<^verbatim>\<open>publisher\<close>, \<^verbatim>\<open>category\<close>,
  \<^verbatim>\<open>starRating\<close>, \<^verbatim>\<open>name\<close>): none of them is a property of a string, a number,
  a boolean or an array, nor inherited by an object. Reading a property of
  \<^verbatim>\<open>null\<close> or \<^verbatim>\<open>undefined\<close> throws.
\<close>

definition get_prop :: "jsval \<Rightarrow> string \<Rightarrow> thrown + jsval" where
  "get_prop v k =
     (case v of
        VUndefined \<Rightarrow> Inl (cannot_read v k)
      | VNull \<Rightarrow> Inl (cannot_read v k)
      | VObject ps \<Rightarrow> Inr (case map_of ps k of None \<Rightarrow> VUndefined | Some x \<Rightarrow> x)
      | _ \<Rightarrow> Inr VUndefined)"

text \<open>\<^verbatim>\<open>v?.k\<close> and \<^verbatim>\<open>a ?? b\<close>.\<close>

definition get_prop_optional :: "jsval \<Rightarrow> string \<Rightarrow> jsval" where
  "get_prop_optional v k =
     (if nullish v then VUndefined
      else (case get_prop v k of Inl err \<Rightarrow> VUndefined | Inr x \<Rightarrow> x))"

definition coalesce :: "jsval \<Rightarrow> jsval \<Rightarrow> jsval" where
  "coalesce a b = (if nullish a then b else a)"

text \<open>
  The conversion of a value to a string (\<^verbatim>\<open>ToString\<close>), as applied to an argument
  of \<^verbatim>\<open>URLSearchParams.append\<close> and \<^verbatim>\<open>set\<close> and to the elements of an array
  that is joined. An array is joined with commas, \<^verbatim>\<open>null\<close> and \<^verbatim>\<open>undefined\<close>
  elements giving the empty string. An object without a property \<^verbatim>\<open>toString\<close> of
  its own inherits the one that gives \<^verbatim>\<open>[object Object]\<close>; with one, which no JSON
  value can make callable, the conversion throws.
\<close>

fun toString_value :: "jsval \<Rightarrow> thrown + string"
  and join_values :: "jsval list \<Rightarrow> thrown + string" where
  "toString_value VUndefined = Inr ''undefined''"
| "toString_value VNull = Inr ''null''"
| "toString_value (VBool b) = Inr (if b then ''true'' else ''false'')"
| "toString_value (VNumber n) = Inr (number_toString n)"
| "toString_value (VString str) = Inr str"
| "toString_value (VArray xs) = join_values xs"
| "toString_value (VObject ps) =
     (if ''toString'' \<in> set (map fst ps)
      then Inl (ErrorInstance ''Cannot convert object to primitive value'')
      else Inr ''[object Object]'')"
| "join_values [] = Inr []"
| "join_values (x # xs) =
     (case (if x = VUndefined \<or> x = VNull then Inr [] else toString_value x) of
        Inl err \<Rightarrow> Inl err
      | Inr first \<Rightarrow>
         if xs = [] then Inr first
         else (case join_values xs of
                 Inl err \<Rightarrow> Inl err
               | Inr others \<Rightarrow> Inr (first @ '','' @ others)))"

text \<open>
  The method call \<^verbatim>\<open>v.toString()\<close>, where \<open>expr\<close> is the source text of \<open>v\<close>:
  on \<^verbatim>\<open>null\<close> and \<^verbatim>\<open>undefined\<close> reading the method throws, and on an object
  with a property \<^verbatim>\<open>toString\<close> of its own the call throws.
\<close>

definition toString_method :: "string \<Rightarrow> jsval \<Rightarrow> thrown + string" where
  "toString_method expr v =
     (case v of
        VUndefined \<Rightarrow> Inl (cannot_read v ''toString'')
      | VNull \<Rightarrow> Inl (cannot_read v ''toString'')
      | VObject ps \<Rightarrow>
         (if ''toString'' \<in> set (map fst ps) then Inl (not_a_function (expr @ ''.toString''))
          else Inr ''[object Object]'')
      | _ \<Rightarrow> toString_value v)"

text \<open>
  \<^verbatim>\<open>p <= v\<close> for a whole number \<open>p\<close>: \<open>v\<close> is converted to a number, arrays and
  objects through their string; \<^verbatim>\<open>undefined\<close> and the string of an object are
  \<^verbatim>\<open>NaN\<close>, with which the comparison is false.
\<close>

definition number_le :: "int \<Rightarrow> jsval \<Rightarrow> thrown + bool" where
  "number_le p v =
     (case v of
        VUndefined \<Rightarrow> Inr False
      | VNull \<Rightarrow> Inr (p \<le> 0)
      | VBool b \<Rightarrow> Inr (p \<le> (if b then 1 else 0))
      | VNumber n \<Rightarrow> Inr (p \<le> n)
      | VString str \<Rightarrow> Inr (le_numeric p (stringToNumber str))
      | VArray xs \<Rightarrow>
         (case join_values xs of
            Inl err \<Rightarrow> Inl err
          | Inr str \<Rightarrow> Inr (le_numeric p (stringToNumber str)))
      | VObject ps \<Rightarrow>
         (if ''toString'' \<in> set (map fst ps)
          then Inl (ErrorInstance ''Cannot convert object to primitive value'')
          else Inr False))"

subsection \<open>URLSearchParams\<close>

text \<open>
  A \<^verbatim>\<open>URLSearchParams\<close> object is its list of decoded name/value pairs. The query
  string of a URL stands for the same list: the platform's serialiser and parser are
  inverse to each other on it.
\<close>

type_synonym params = "(string \<times> string) list"

definition get_param :: "params \<Rightarrow> string \<Rightarrow> string option" where
  "get_param ps k = map_of ps k"

definition append_param :: "params \<Rightarrow> string \<Rightarrow> string \<Rightarrow> params" where
  "append_param ps k v = ps @ [(k, v)]"

fun set_param :: "params \<Rightarrow> string \<Rightarrow> string \<Rightarrow> params" where
  "set_param [] k v = [(k, v)]"
| "set_param ((k', v') # ps) k v =
     (if k' = k then (k, v) # filter (\<lambda>kv. fst kv \<noteq> k) ps else (k', v') # set_param ps k v)"

text \<open>A URL: the path, and the parameters of its query string.\<close>

type_synonym url = "string \<times> params"

subsection \<open>Data model\<close>

text \<open>
  A game as the list holds it. Each field is whatever the response carried there.
\<close>

record Game =
  game_id :: jsval
  title :: jsval
  description :: jsval
  publisher_name :: jsval
  category_name :: jsval
  starRating :: jsval


text \<open>
  \<^verbatim>\<open>response.json()\<close> either rejects or resolves with a value.
  \<^verbatim>\<open>response.ok\<close> is the platform's flag for a status in the range 200 to 299.
\<close>

datatype json_result = JsonRejected thrown | JsonResolved jsval

record response =
  status :: int
  statusText :: string
  json :: json_result

definition ok :: "response \<Rightarrow> bool" where
  "ok r = (200 \<le> status r \<and> status r \<le> 299)"

datatype fetch_result = FetchRejected thrown | FetchResolved response

text \<open>
  The variables of the component, together with the two things outside it that it
  touches: the query parameters of \<^verbatim>\<open>window.location\<close> (\<^const>\<open>None\<close> where
  \<^verbatim>\<open>typeof window === 'undefined'\<close>) and the list of URLs passed to
  \<^verbatim>\<open>fetch\<close> so far, oldest first. The two filters hold what the selects bind to
  them, which is the value of the chosen option; \<^verbatim>\<open>pagination\<close>,
  \<^verbatim>\<open>currentPage\<close> and \<^verbatim>\<open>pageSize\<close> hold what a response put there. The
  publishers and categories of the two selects are left out, with the two requests that
  load them: those read and write no other variable.
\<close>

record state =
  games :: "Game list"
  loading :: bool
  error :: "string option"
  selectedPublisherId :: jsval
  selectedCategoryId :: jsval
  pagination :: jsval
  currentPage :: jsval
  pageSize :: jsval
  window_location :: "params option"
  fetched :: "url list"

definition pageSizeOptions :: "int list" where
  "pageSizeOptions = [10, 20, 50]"

definition initial :: "params option \<Rightarrow> state" where
  "initial w =
     \<lparr> games = [], loading = True, error = None,
       selectedPublisherId = VString [], selectedCategoryId = VString [],
       pagination = VObject [(''page'', VNumber 1), (''per_page'', VNumber 20),
                             (''total_items'', VNumber 0), (''total_pages'', VNumber 1),
                             (''has_next'', VBool False), (''has_previous'', VBool False)],
       currentPage = VNumber 1, pageSize = VNumber 20,
       window_location = w, fetched = [] \<rparr>"

subsection \<open>Pagination window\<close>






subsection \<open>Statements that may throw\<close>

text \<open>
  \<^const>\<open>Inl\<close> is a thrown value; what follows a throwing statement is not run.
\<close>

definition and_then :: "thrown + 'a \<Rightarrow> ('a \<Rightarrow> thrown + 'b) \<Rightarrow> thrown + 'b" where
  "and_then m f = (case m of Inl err \<Rightarrow> Inl err | Inr v \<Rightarrow> f v)"

text \<open>\<^verbatim>\<open>if (v) { params.set(name, v) }\<close> and \<^verbatim>\<open>if (v) { params.append(name, v) }\<close>.\<close>

definition set_if_truthy :: "params \<Rightarrow> string \<Rightarrow> jsval \<Rightarrow> thrown + params" where
  "set_if_truthy ps name v =
     (if truthy v then and_then (toString_value v) (\<lambda>str. Inr (set_param ps name str))
      else Inr ps)"

definition append_if_truthy :: "params \<Rightarrow> string \<Rightarrow> jsval \<Rightarrow> thrown + params" where
  "append_if_truthy ps name v =
     (if truthy v then and_then (toString_value v) (\<lambda>str. Inr (append_param ps name str))
      else Inr ps)"

subsection \<open>Reading and writing the browser location\<close>

definition syncFiltersFromUrl :: "state \<Rightarrow> state" where
  "syncFiltersFromUrl s =
     (case window_location s of
        None \<Rightarrow> s
      | Some params \<Rightarrow>
         (let urlCategoryId = (case get_param params ''category_id'' of None \<Rightarrow> [] | Some v \<Rightarrow> v);
              urlPublisherId = (case get_param params ''publisher_id'' of None \<Rightarrow> [] | Some v \<Rightarrow> v);
              urlPage = get_param params ''page'';
              urlPerPage = get_param params ''per_page'';
              s = s\<lparr>selectedCategoryId := VString urlCategoryId\<rparr>;
              s = s\<lparr>selectedPublisherId := VString urlPublisherId\<rparr>;
              parsedPage = (case urlPage of
                              None \<Rightarrow> Some 1
                            | Some v \<Rightarrow> if v \<noteq> [] then parseInt v else Some 1);
              s = s\<lparr>currentPage := VNumber (case parsedPage of
                                                None \<Rightarrow> 1
                                              | Some n \<Rightarrow> if n < 1 then 1 else n)\<rparr>
          in case urlPerPage of
               None \<Rightarrow> s
             | Some v \<Rightarrow>
                if v \<noteq> [] then
                  (case parseInt v of
                     None \<Rightarrow> s
                   | Some parsedPerPage \<Rightarrow>
                      if parsedPerPage \<in> set pageSizeOptions
                      then s\<lparr>pageSize := VNumber parsedPerPage\<rparr>
                      else s)
                else s))"

text \<open>
  \<^verbatim>\<open>updateBrowserUrl\<close> builds its parameters first and replaces the location last,
  so a throw while building leaves the location as it was.
\<close>

definition updateBrowserUrl :: "jsval \<Rightarrow> state \<Rightarrow> thrown + state" where
  "updateBrowserUrl paginationState s =
     (case window_location s of
        None \<Rightarrow> Inr s
      | Some _ \<Rightarrow>
         and_then (set_if_truthy [] ''category_id'' (selectedCategoryId s)) (\<lambda>params.
         and_then (set_if_truthy params ''publisher_id'' (selectedPublisherId s)) (\<lambda>params.
         and_then (get_prop paginationState ''page'') (\<lambda>p.
         and_then (toString_method ''paginationState.page'' p) (\<lambda>page_text.
         and_then (get_prop paginationState ''per_page'') (\<lambda>pp.
         and_then (toString_method ''paginationState.per_page'' pp) (\<lambda>per_page_text.
           Inr (s\<lparr>window_location :=
                    Some (set_param (set_param params ''page'' page_text)
                                    ''per_page'' per_page_text)\<rparr>))))))))"

subsection \<open>Fetching the games\<close>

text \<open>
  \<^verbatim>\<open>fetchGames\<close> is asynchronous. Its first part sets \<^verbatim>\<open>loading\<close>, builds the
  query from the current variables and calls \<^verbatim>\<open>fetch(url)\<close>. Building the query
  is inside the \<^verbatim>\<open>try\<close>: when it throws, no request is issued, the
  \<^verbatim>\<open>catch\<close> sets the error and the \<^verbatim>\<open>finally\<close> clears \<^verbatim>\<open>loading\<close>. The
  rest runs when the request has settled, on the state of that moment: between the two
  \<^verbatim>\<open>await\<close>s of the successful branch no variable is written, so one continuation
  that receives the whole outcome covers every interleaving with other events.
\<close>

definition fetchGames_query :: "state \<Rightarrow> thrown + params" where
  "fetchGames_query s =
     and_then (append_if_truthy [] ''publisher_id'' (selectedPublisherId s)) (\<lambda>params.
     and_then (append_if_truthy params ''category_id'' (selectedCategoryId s)) (\<lambda>params.
     and_then (toString_method ''currentPage'' (currentPage s)) (\<lambda>page_text.
     and_then (toString_method ''pageSize'' (pageSize s)) (\<lambda>per_page_text.
       Inr (append_param (append_param params ''page'' page_text)
                         ''per_page'' per_page_text)))))"

definition fetchGames_begin :: "state \<Rightarrow> state" where
  "fetchGames_begin s =
     (let s = s\<lparr>loading := True\<rparr>
      in case fetchGames_query s of
           Inl err \<Rightarrow> s\<lparr>error := Some (''Error: '' @ thrown_text err), loading := False\<rparr>
         | Inr params \<Rightarrow> s\<lparr>fetched := fetched s @ [(''/api/games'', params)]\<rparr>)"

text \<open>
  The callback of \<^verbatim>\<open>apiGames.map\<close>: reading \<^verbatim>\<open>game.id\<close> throws for a
  \<^verbatim>\<open>null\<close> element.
\<close>

definition flatten_game :: "jsval \<Rightarrow> thrown + Game" where
  "flatten_game game =
     and_then (get_prop game ''id'') (\<lambda>gid.
     and_then (get_prop game ''title'') (\<lambda>gtitle.
     and_then (get_prop game ''description'') (\<lambda>gdescription.
     and_then (get_prop game ''publisher'') (\<lambda>gpublisher.
     and_then (get_prop game ''category'') (\<lambda>gcategory.
     and_then (get_prop game ''starRating'') (\<lambda>gstar.
       Inr \<lparr> game_id = gid,
             title = gtitle,
             description = gdescription,
             publisher_name = get_prop_optional gpublisher ''name'',
             category_name = get_prop_optional gcategory ''name'',
             starRating = coalesce gstar VNull \<rparr>))))))"

text \<open>
  \<^verbatim>\<open>v.map(f)\<close>, where \<open>expr\<close> is the source text of \<open>v\<close>: only an array has the
  method, and the first element on which \<open>f\<close> throws ends the call.
\<close>

fun map_throwing :: "(jsval \<Rightarrow> thrown + 'b) \<Rightarrow> jsval list \<Rightarrow> thrown + 'b list" where
  "map_throwing f [] = Inr []"
| "map_throwing f (x # xs) =
     (case f x of
        Inl err \<Rightarrow> Inl err
      | Inr y \<Rightarrow> (case map_throwing f xs of Inl err \<Rightarrow> Inl err | Inr ys \<Rightarrow> Inr (y # ys)))"

definition array_map :: "(jsval \<Rightarrow> thrown + 'b) \<Rightarrow> string \<Rightarrow> jsval \<Rightarrow> thrown + 'b list" where
  "array_map f expr v =
     (case v of
        VArray xs \<Rightarrow> map_throwing f xs
      | VUndefined \<Rightarrow> Inl (cannot_read v ''map'')
      | VNull \<Rightarrow> Inl (cannot_read v ''map'')
      | _ \<Rightarrow> Inl (not_a_function (expr @ ''.map'')))"

text \<open>
  The body of the \<^verbatim>\<open>try\<close> block from the first \<^verbatim>\<open>await\<close> on. \<^const>\<open>Inl\<close> is
  a thrown value together with the state in which it was thrown: the rejection of
  \<^verbatim>\<open>fetch\<close>, the rejection of \<^verbatim>\<open>response.json()\<close> and a throw inside
  \<^verbatim>\<open>apiGames.map\<close> come before the first assignment, a throw in
  \<^verbatim>\<open>updateBrowserUrl\<close> comes after the four of them.
\<close>

definition throwing_in ::
  "state \<Rightarrow> thrown + 'a \<Rightarrow> ('a \<Rightarrow> (thrown \<times> state) + state) \<Rightarrow> (thrown \<times> state) + state" where
  "throwing_in s m f = (case m of Inl err \<Rightarrow> Inl (err, s) | Inr v \<Rightarrow> f v)"

definition fetchGames_try :: "fetch_result \<Rightarrow> state \<Rightarrow> (thrown \<times> state) + state" where
  "fetchGames_try res s =
     (case res of
        FetchRejected err \<Rightarrow> Inl (err, s)
      | FetchResolved response \<Rightarrow>
         if ok response then
           (case json response of
              JsonRejected err \<Rightarrow> Inl (err, s)
            | JsonResolved payload \<Rightarrow>
               (let apiGames = coalesce (get_prop_optional payload ''games'') (VArray []);
                    apiPagination = coalesce (get_prop_optional payload ''pagination'') (pagination s)
                in throwing_in s (array_map flatten_game ''apiGames'' apiGames) (\<lambda>mapped.
                     let s = s\<lparr>games := mapped\<rparr>;
                         s = s\<lparr>pagination := apiPagination\<rparr>
                     in throwing_in s (get_prop (pagination s) ''page'') (\<lambda>p.
                          let s = s\<lparr>currentPage := p\<rparr>
                          in throwing_in s (get_prop (pagination s) ''per_page'') (\<lambda>pp.
                               let s = s\<lparr>pageSize := pp\<rparr>
                               in throwing_in s (updateBrowserUrl (pagination s) s) Inr)))))
         else
           Inr (s\<lparr>error := Some (''Failed to fetch data: '' @ number_toString (status response)
                                    @ '' '' @ statusText response)\<rparr>))"

definition fetchGames_settle :: "fetch_result \<Rightarrow> state \<Rightarrow> state" where
  "fetchGames_settle res s =
     (let s = (case fetchGames_try res s of
                 Inl (err, s') \<Rightarrow> s'\<lparr>error := Some (''Error: '' @ thrown_text err)\<rparr>
               | Inr s' \<Rightarrow> s')
      in s\<lparr>loading := False\<rparr>)"

text \<open>
  One whole call with nothing in between: when the query cannot be built there is no
  request and no outcome to receive.
\<close>

definition fetchGames :: "fetch_result \<Rightarrow> state \<Rightarrow> state" where
  "fetchGames res s =
     (case fetchGames_query s of
        Inl err \<Rightarrow> fetchGames_begin s
      | Inr params \<Rightarrow> fetchGames_settle res (fetchGames_begin s))"

subsection \<open>Event handlers\<close>

text \<open>
  \<^verbatim>\<open>changePage\<close> is declared for a number. It compares before it assigns, so a
  throw in the comparison leaves the state as it was.
\<close>

definition handleFilterChange :: "state \<Rightarrow> state" where
  "handleFilterChange s = fetchGames_begin (s\<lparr>currentPage := VNumber 1\<rparr>)"

definition clearFilters :: "state \<Rightarrow> state" where
  "clearFilters s =
     fetchGames_begin (s\<lparr>selectedPublisherId := VString [], selectedCategoryId := VString [],
                         currentPage := VNumber 1\<rparr>)"

definition changePage :: "int \<Rightarrow> state \<Rightarrow> state" where
  "changePage requested s =
     (if VNumber requested \<noteq> currentPage s \<and> requested \<ge> 1 then
        (case and_then (get_prop (pagination s) ''total_pages'') (number_le requested) of
           Inl err \<Rightarrow> s
         | Inr within \<Rightarrow>
            if within then fetchGames_begin (s\<lparr>currentPage := VNumber requested\<rparr>) else s)
      else s)"

definition changePageSize :: "int \<Rightarrow> state \<Rightarrow> state" where
  "changePageSize size_requested s =
     fetchGames_begin (s\<lparr>pageSize := VNumber size_requested, currentPage := VNumber 1\<rparr>)"

definition onMount :: "state \<Rightarrow> state" where
  "onMount s = fetchGames_begin (syncFiltersFromUrl s)"

text \<open>
  Everything that can happen to the component. The two filter selects are bound to
  their variables (\<^verbatim>\<open>bind:value\<close>), so choosing an option assigns its value to the
  variable and then runs \<^verbatim>\<open>handleFilterChange\<close>.
\<close>

datatype event =
    Mount
  | SelectCategory jsval
  | SelectPublisher jsval
  | ClearFilters
  | ChangePage int
  | ChangePageSize int
  | Settled fetch_result

fun step :: "state \<Rightarrow> event \<Rightarrow> state" where
  "step s Mount = onMount s"
| "step s (SelectCategory v) = handleFilterChange (s\<lparr>selectedCategoryId := v\<rparr>)"
| "step s (SelectPublisher v) = handleFilterChange (s\<lparr>selectedPublisherId := v\<rparr>)"
| "step s ClearFilters = clearFilters s"
| "step s (ChangePage n) = changePage n s"
| "step s (ChangePageSize n) = changePageSize n s"
| "step s (Settled res) = fetchGames_settle res s"

definition run :: "state \<Rightarrow> event list \<Rightarrow> state" where
  "run s evs = foldl step s evs"

subsection \<open>What is shown\<close>

text \<open>
  The \<^verbatim>\<open>{#if loading} ... {:else if error} ... {:else if games.length === 0} ...
  {:else}\<close> chain of the markup; an empty string is falsy.
\<close>

datatype view = Skeleton | ErrorText string | NoGames | Grid "Game list"

definition render :: "state \<Rightarrow> view" where
  "render s =
     (if loading s then Skeleton
      else (case error s of
              Some msg \<Rightarrow> if msg \<noteq> [] then ErrorText msg
                          else if games s = [] then NoGames else Grid (games s)
            | None \<Rightarrow> if games s = [] then NoGames else Grid (games s)))"

subsection \<open>The pagination window as the specification words it\<close>



section \<open>Properties\<close>

subsection \<open>Decimal numbers are read back\<close>

lemma digit_cases: "d < 10 \<Longrightarrow> d = 0 \<or> d = 1 \<or> d = 2 \<or> d = 3 \<or> d = 4 \<or> d = 5 \<or> d = 6 \<or> d = 7 \<or> d = 8 \<or> d = (9::nat)"
  by arith

lemma isDigit_digit_char: "d < 10 \<Longrightarrow> isDigit (digit_char d)"
  using digit_cases[of d] by (auto simp: isDigit_def digit_char_def)

lemma digitValue_digit_char: "d < 10 \<Longrightarrow> digitValue (digit_char d) = int d"
  using digit_cases[of d] by (auto simp: digitValue_def digit_char_def)

lemma not_space_digit: "isDigit c \<Longrightarrow> \<not> isWhiteSpace c"
  by (auto simp: isDigit_def isWhiteSpace_def)

lemma not_sign_digit: "isDigit c \<Longrightarrow> c \<noteq> CHR ''-'' \<and> c \<noteq> CHR ''+''"
  by (auto simp: isDigit_def)

lemma digits_nonempty: "digits n \<noteq> []"
  by (subst digits.simps) simp

lemma digits_all_digit: "\<forall>c\<in>set (digits n). isDigit c"
proof (induction n rule: digits.induct)
  case (1 n)
  show ?case
  proof (cases "n < 10")
    case True
    then show ?thesis by (subst digits.simps) (simp add: isDigit_digit_char)
  next
    case False
    then show ?thesis using 1 by (subst digits.simps) (simp add: isDigit_digit_char)
  qed
qed

lemma digits_value_digits: "digits_value (digits n) = int n"
proof (induction n rule: digits.induct)
  case (1 n)
  show ?case
  proof (cases "n < 10")
    case True
    then show ?thesis by (subst digits.simps) (simp add: digitValue_digit_char digits_value_def)
  next
    case False
    have "int n = 10 * int (n div 10) + int (n mod 10)" by presburger
    with False show ?thesis using 1
      by (subst digits.simps) (simp add: digitValue_digit_char digits_value_def)
  qed
qed

lemma parseInt_digits: "parseInt (digits n) = Some (int n)"
proof -
  obtain c cs where d: "digits n = c # cs" using digits_nonempty[of n] by (cases "digits n") auto
  have c: "isDigit c" using digits_all_digit[of n] d by simp
  have dw: "dropWhile isWhiteSpace (digits n) = digits n"
    using c d not_space_digit by simp
  have tw: "takeWhile isDigit (digits n) = digits n"
    using digits_all_digit[of n] by (simp add: takeWhile_eq_all_conv)
  have hd: "hd (digits n) \<noteq> CHR ''-''" "hd (digits n) \<noteq> CHR ''+''"
    using c d not_sign_digit by auto
  show ?thesis
    unfolding parseInt_def Let_def dw using hd digits_nonempty[of n]
    by (simp add: tw digits_value_digits)
qed

lemma parseInt_minus_digits: "parseInt (CHR ''-'' # digits n) = Some (- int n)"
proof -
  have tw: "takeWhile isDigit (digits n) = digits n"
    using digits_all_digit[of n] by (simp add: takeWhile_eq_all_conv)
  have ws: "\<not> isWhiteSpace CHR ''-''" by (simp add: isWhiteSpace_def)
  show ?thesis
    unfolding parseInt_def Let_def using ws digits_nonempty[of n]
    by (simp add: tw digits_value_digits)
qed


lemma length_digits: "0 < k \<Longrightarrow> n < 10 ^ k \<Longrightarrow> length (digits n) \<le> k"
proof (induction n arbitrary: k rule: digits.induct)
  case (1 n)
  show ?case
  proof (cases "n < 10")
    case True
    then show ?thesis using 1(2) by (subst digits.simps) simp
  next
    case False
    obtain j where k: "k = Suc j" using 1(2) by (cases k) auto
    have "0 < j"
    proof (rule ccontr)
      assume "\<not> 0 < j"
      then show False using False 1(3) k by simp
    qed
    note j = k this
    have "n div 10 < 10 ^ j" using 1(3) j by (simp add: less_mult_imp_div_less mult.commute)
    then have "length (digits (n div 10)) \<le> j" using 1(1)[OF False j(2)] by simp
    then show ?thesis using False j by (subst digits.simps) simp
  qed
qed

lemma toString_nat_small: "n < 10 ^ 21 \<Longrightarrow> toString_nat n = digits n"
  using length_digits[of 21 n] by (simp add: toString_nat_def Let_def)

lemma number_toString_small: "0 \<le> n \<Longrightarrow> n < 10 ^ 21 \<Longrightarrow> number_toString n = digits (nat n)"
proof -
  assume a: "0 \<le> n" "n < 10 ^ 21"
  then have "nat n < 10 ^ 21"
    by (metis nat_less_iff of_nat_numeral of_nat_power)
  then show ?thesis using a by (simp add: number_toString_def toString_nat_small)
qed

lemma parseInt_number_toString:
  "0 \<le> n \<Longrightarrow> n < 10 ^ 21 \<Longrightarrow> parseInt (number_toString n) = Some n"
  by (simp add: number_toString_small parseInt_digits)

lemma number_toString_nonempty: "0 \<le> n \<Longrightarrow> n < 10 ^ 21 \<Longrightarrow> number_toString n \<noteq> []"
  by (simp add: number_toString_small digits_nonempty)


lemma number_toString_1e21: "number_toString 1000000000000000000000 = ''1e+21''"
  by (simp add: number_toString_def toString_nat_def exponent_notation_def digits.simps
      digit_char_def Let_def)

subsection \<open>The pagination window\<close>










subsection \<open>Browser location\<close>

lemma updateBrowserUrl_written:
  assumes "window_location s = Some q"
    and "selectedCategoryId s = VString c" and "selectedPublisherId s = VString p"
    and "get_prop pg ''page'' = Inr (VNumber n)"
    and "get_prop pg ''per_page'' = Inr (VNumber m)"
  shows "updateBrowserUrl pg s = Inr (s\<lparr>window_location := Some (
      (if c \<noteq> [] then [(''category_id'', c)] else [])
    @ (if p \<noteq> [] then [(''publisher_id'', p)] else [])
    @ [(''page'', number_toString n), (''per_page'', number_toString m)])\<rparr>)"
  using assms
  by (simp add: updateBrowserUrl_def and_then_def set_if_truthy_def truthy_def
      toString_method_def)

lemma sync_after_write:
  assumes w: "window_location t = Some (
      (if c \<noteq> [] then [(''category_id'', c)] else [])
    @ (if p \<noteq> [] then [(''publisher_id'', p)] else [])
    @ [(''page'', number_toString n), (''per_page'', number_toString m)])"
    and n: "0 \<le> n" "n < 10 ^ 21" and m: "0 \<le> m" "m < 10 ^ 21"
  shows "selectedCategoryId (syncFiltersFromUrl t) = VString c"
    and "selectedPublisherId (syncFiltersFromUrl t) = VString p"
    and "currentPage (syncFiltersFromUrl t) = VNumber (if n < 1 then 1 else n)"
    and "pageSize (syncFiltersFromUrl t) =
           (if m \<in> set pageSizeOptions then VNumber m else pageSize t)"
  using w parseInt_number_toString[OF n] parseInt_number_toString[OF m]
    number_toString_nonempty[OF n] number_toString_nonempty[OF m]
  by (simp_all add: syncFiltersFromUrl_def get_param_def Let_def)

text \<open>
  C3, as amended. In a browser, with both filters holding strings, writing them and a
  pagination state whose page is a whole number from 1 to below ten to the power 21 and
  whose page size is 10, 20 or 50 to the location succeeds, and reading the location
  back into any component \<open>t\<close> that sees it restores the two filters, the page and the
  page size.
\<close>

theorem url_round_trip:
  assumes "window_location s \<noteq> None"
    and "selectedCategoryId s = VString c" and "selectedPublisherId s = VString p"
    and "get_prop pg ''page'' = Inr (VNumber n)" and "1 \<le> n" and "n < 10 ^ 21"
    and "get_prop pg ''per_page'' = Inr (VNumber m)" and "m \<in> {10, 20, 50}"
  shows "\<exists>s'. updateBrowserUrl pg s = Inr s'
          \<and> (\<forall>t. window_location t = window_location s' \<longrightarrow>
                 selectedCategoryId (syncFiltersFromUrl t) = selectedCategoryId s
               \<and> selectedPublisherId (syncFiltersFromUrl t) = selectedPublisherId s
               \<and> currentPage (syncFiltersFromUrl t) = VNumber n
               \<and> pageSize (syncFiltersFromUrl t) = VNumber m)"
proof -
  from assms(1) obtain q where q: "window_location s = Some q" by auto
  let ?w = "(if c \<noteq> [] then [(''category_id'', c)] else [])
    @ (if p \<noteq> [] then [(''publisher_id'', p)] else [])
    @ [(''page'', number_toString n), (''per_page'', number_toString m)]"
  have u: "updateBrowserUrl pg s = Inr (s\<lparr>window_location := Some ?w\<rparr>)"
    by (rule updateBrowserUrl_written[OF q assms(2,3,4,7)])
  have n: "0 \<le> n" using assms(5) by simp
  have m: "0 \<le> m" "m < 10 ^ 21" "m \<in> set pageSizeOptions"
    using assms(8) by (auto simp: pageSizeOptions_def)
  have "selectedCategoryId (syncFiltersFromUrl t) = selectedCategoryId s
               \<and> selectedPublisherId (syncFiltersFromUrl t) = selectedPublisherId s
               \<and> currentPage (syncFiltersFromUrl t) = VNumber n
               \<and> pageSize (syncFiltersFromUrl t) = VNumber m"
    if "window_location t = window_location (s\<lparr>window_location := Some ?w\<rparr>)" for t
  proof -
    from that have w: "window_location t = Some ?w" by simp
    show ?thesis
      using sync_after_write[OF w n assms(6) m(1,2)] assms(2,3,5) m(3) by simp
  qed
  with u show ?thesis by blast
qed

theorem url_round_trip_witness:
  "updateBrowserUrl (VObject [(''page'', VNumber 2), (''per_page'', VNumber 50)])
     ((initial (Some []))\<lparr>selectedCategoryId := VString ''3''\<rparr>)
   = Inr ((initial (Some []))\<lparr>selectedCategoryId := VString ''3'',
            window_location := Some [(''category_id'', ''3''), (''page'', ''2''), (''per_page'', ''50'')]\<rparr>)
 \<and> selectedCategoryId (syncFiltersFromUrl
       (initial (Some [(''category_id'', ''3''), (''page'', ''2''), (''per_page'', ''50'')]))) = VString ''3''
 \<and> selectedPublisherId (syncFiltersFromUrl
       (initial (Some [(''category_id'', ''3''), (''page'', ''2''), (''per_page'', ''50'')]))) = VString []
 \<and> currentPage (syncFiltersFromUrl
       (initial (Some [(''category_id'', ''3''), (''page'', ''2''), (''per_page'', ''50'')]))) = VNumber 2
 \<and> pageSize (syncFiltersFromUrl
       (initial (Some [(''category_id'', ''3''), (''page'', ''2''), (''per_page'', ''50'')]))) = VNumber 50"
proof -
  let ?pg = "VObject [(''page'', VNumber 2), (''per_page'', VNumber 50)]"
  let ?s = "(initial (Some []))\<lparr>selectedCategoryId := VString ''3''\<rparr>"
  let ?w = "[(''category_id'', ''3''), (''page'', ''2''), (''per_page'', ''50'')]"
  have h1: "window_location ?s \<noteq> None" by (simp add: initial_def)
  have h2: "selectedCategoryId ?s = VString ''3''" by simp
  have h3: "selectedPublisherId ?s = VString []" by (simp add: initial_def)
  have h4: "get_prop ?pg ''page'' = Inr (VNumber 2)" by (simp add: get_prop_def)
  have h5: "(1::int) \<le> 2" "(2::int) < 10 ^ 21" by simp_all
  have h6: "get_prop ?pg ''per_page'' = Inr (VNumber 50)" by (simp add: get_prop_def)
  have h7: "(50::int) \<in> {10, 20, 50}" by simp
  have n: "number_toString 2 = ''2''" "number_toString 50 = ''50''" by code_simp+
  have u: "updateBrowserUrl ?pg ?s = Inr (?s\<lparr>window_location := Some ?w\<rparr>)"
    using updateBrowserUrl_written[of ?s "[]" "''3''" "[]" ?pg 2 50] n
    by (simp add: initial_def get_prop_def)
  from url_round_trip [OF h1 h2 h3 h4 h5 h6 h7] u
  have "\<forall>t. window_location t = Some ?w \<longrightarrow>
                 selectedCategoryId (syncFiltersFromUrl t) = selectedCategoryId ?s
               \<and> selectedPublisherId (syncFiltersFromUrl t) = selectedPublisherId ?s
               \<and> currentPage (syncFiltersFromUrl t) = VNumber 2
               \<and> pageSize (syncFiltersFromUrl t) = VNumber 50"
    by auto
  then have "selectedCategoryId (syncFiltersFromUrl (initial (Some ?w))) = selectedCategoryId ?s
               \<and> selectedPublisherId (syncFiltersFromUrl (initial (Some ?w))) = selectedPublisherId ?s
               \<and> currentPage (syncFiltersFromUrl (initial (Some ?w))) = VNumber 2
               \<and> pageSize (syncFiltersFromUrl (initial (Some ?w))) = VNumber 50"
    by (simp add: initial_def)
  with u show ?thesis by (simp add: initial_def)
qed

text \<open>
  C3 as it was stated fails twice. The page ten to the power 21 is written as
  \<^verbatim>\<open>1e+21\<close> and read back as 1. A filter holding the number 3, as a select bound
  to numeric option values leaves it, is written as \<^verbatim>\<open>3\<close> and read back as the
  string \<^verbatim>\<open>3\<close>.
\<close>

theorem url_round_trip_counterexample:
  "updateBrowserUrl (VObject [(''page'', VNumber 1000000000000000000000), (''per_page'', VNumber 20)])
     (initial (Some []))
   = Inr ((initial (Some []))\<lparr>window_location := Some [(''page'', ''1e+21''), (''per_page'', ''20'')]\<rparr>)
 \<and> currentPage (syncFiltersFromUrl (initial (Some [(''page'', ''1e+21''), (''per_page'', ''20'')])))
   = VNumber 1
 \<and> updateBrowserUrl (VObject [(''page'', VNumber 2), (''per_page'', VNumber 20)])
     ((initial (Some []))\<lparr>selectedCategoryId := VNumber 3\<rparr>)
   = Inr ((initial (Some []))\<lparr>selectedCategoryId := VNumber 3,
            window_location := Some [(''category_id'', ''3''), (''page'', ''2''), (''per_page'', ''20'')]\<rparr>)
 \<and> selectedCategoryId (syncFiltersFromUrl
       (initial (Some [(''category_id'', ''3''), (''page'', ''2''), (''per_page'', ''20'')])))
   = VString ''3''"
proof -
  have n: "number_toString 20 = ''20''" "number_toString 2 = ''2''" "number_toString 3 = ''3''"
    by code_simp+
  have p: "parseInt ''1e+21'' = Some 1" "parseInt ''20'' = Some 20" "parseInt ''2'' = Some 2"
    by code_simp+
  have a: "updateBrowserUrl (VObject [(''page'', VNumber 1000000000000000000000), (''per_page'', VNumber 20)])
     (initial (Some []))
   = Inr ((initial (Some []))\<lparr>window_location := Some [(''page'', ''1e+21''), (''per_page'', ''20'')]\<rparr>)"
    by (simp add: updateBrowserUrl_def and_then_def set_if_truthy_def truthy_def
        toString_method_def get_prop_def initial_def n number_toString_1e21)
  have b: "currentPage (syncFiltersFromUrl (initial (Some [(''page'', ''1e+21''), (''per_page'', ''20'')])))
   = VNumber 1"
    by (simp add: initial_def syncFiltersFromUrl_def get_param_def Let_def pageSizeOptions_def p)
  have c: "updateBrowserUrl (VObject [(''page'', VNumber 2), (''per_page'', VNumber 20)])
     ((initial (Some []))\<lparr>selectedCategoryId := VNumber 3\<rparr>)
   = Inr ((initial (Some []))\<lparr>selectedCategoryId := VNumber 3,
            window_location := Some [(''category_id'', ''3''), (''page'', ''2''), (''per_page'', ''20'')]\<rparr>)"
    by (simp add: updateBrowserUrl_def and_then_def set_if_truthy_def truthy_def
        toString_method_def get_prop_def initial_def n)
  have d: "selectedCategoryId (syncFiltersFromUrl
       (initial (Some [(''category_id'', ''3''), (''page'', ''2''), (''per_page'', ''20'')])))
   = VString ''3''"
    by (simp add: initial_def syncFiltersFromUrl_def get_param_def Let_def pageSizeOptions_def p)
  from a b c d show ?thesis by blast
qed

text \<open>
  C8. At mount, with query parameters \<open>q\<close>: the requested page is 1 when the
  \<^verbatim>\<open>page\<close> parameter is absent, is not a number for \<^verbatim>\<open>parseInt\<close>, or is a number
  below 1, and it is the number read otherwise; the page size is the number read from
  \<^verbatim>\<open>per_page\<close> when that is 10, 20 or 50, and stays at the default 20 otherwise.
\<close>

theorem parse_from_location_defaults:
  "(get_param q ''page'' = None \<longrightarrow> currentPage (syncFiltersFromUrl (initial (Some q))) = VNumber 1)
 \<and> (\<forall>v. get_param q ''page'' = Some v \<and> parseInt v = None
        \<longrightarrow> currentPage (syncFiltersFromUrl (initial (Some q))) = VNumber 1)
 \<and> (\<forall>v n. get_param q ''page'' = Some v \<and> parseInt v = Some n \<and> n < 1
        \<longrightarrow> currentPage (syncFiltersFromUrl (initial (Some q))) = VNumber 1)
 \<and> (\<forall>v n. get_param q ''page'' = Some v \<and> parseInt v = Some n \<and> 1 \<le> n
        \<longrightarrow> currentPage (syncFiltersFromUrl (initial (Some q))) = VNumber n)
 \<and> (\<forall>v n. get_param q ''per_page'' = Some v \<and> parseInt v = Some n \<and> n \<in> {10, 20, 50}
        \<longrightarrow> pageSize (syncFiltersFromUrl (initial (Some q))) = VNumber n)
 \<and> (\<not> (\<exists>v n. get_param q ''per_page'' = Some v \<and> parseInt v = Some n \<and> n \<in> {10, 20, 50})
        \<longrightarrow> pageSize (syncFiltersFromUrl (initial (Some q))) = VNumber 20)"
proof -
  have e: "parseInt [] = None" by (simp add: parseInt_def)
  show ?thesis
    using e
    by (auto simp: syncFiltersFromUrl_def initial_def Let_def pageSizeOptions_def
        split: option.splits)
qed

theorem parse_from_location_defaults_witness:
  "currentPage (syncFiltersFromUrl (initial (Some []))) = VNumber 1
 \<and> pageSize (syncFiltersFromUrl (initial (Some []))) = VNumber 20
 \<and> currentPage (syncFiltersFromUrl (initial (Some [(''page'', ''abc'')]))) = VNumber 1
 \<and> currentPage (syncFiltersFromUrl (initial (Some [(''page'', ''0''), (''per_page'', ''50'')]))) = VNumber 1
 \<and> pageSize (syncFiltersFromUrl (initial (Some [(''page'', ''0''), (''per_page'', ''50'')]))) = VNumber 50
 \<and> currentPage (syncFiltersFromUrl (initial (Some [(''page'', ''3''), (''per_page'', ''25'')]))) = VNumber 3
 \<and> pageSize (syncFiltersFromUrl (initial (Some [(''page'', ''3''), (''per_page'', ''25'')]))) = VNumber 20"
proof -
  have p: "parseInt ''abc'' = None" "parseInt ''0'' = Some 0" "parseInt ''50'' = Some 50"
    "parseInt ''3'' = Some 3" "parseInt ''25'' = Some 25"
    by code_simp+
  show ?thesis
    using parse_from_location_defaults [of "[]"]
      parse_from_location_defaults [of "[(''page'', ''abc'')]"]
      parse_from_location_defaults [of "[(''page'', ''0''), (''per_page'', ''50'')]"]
      parse_from_location_defaults [of "[(''page'', ''3''), (''per_page'', ''25'')]"]
    by (simp add: get_param_def p)
qed

end
